theory Spec2Isabelle
  imports Main "HOL-Library.Word"
begin

section \<open>JavaScript strings\<close>

text \<open>
  A JavaScript string is a sequence of UTF-16 code units. The literals of the source are
  ASCII, written here through \<open>js_str\<close>; strings that arrive at run time (the typed
  query, an error's message, the fields of a segment) are arbitrary code-unit sequences.
\<close>

type_synonym js_string = "16 word list"

definition js_str :: "string \<Rightarrow> js_string" where
  "js_str cs = map of_char cs"

text \<open>
  \<open>String.prototype.trim\<close> removes, from both ends, the code units that ECMAScript
  calls WhiteSpace (TAB, VT, FF, SP, NBSP, ZWNBSP and the category Zs) or LineTerminator
  (LF, CR, LS, PS). All of them lie in the basic plane, so one code unit each.
\<close>

definition is_white_space :: "16 word \<Rightarrow> bool" where
  "is_white_space c =
     (c \<in> set [0x0009, 0x000A, 0x000B, 0x000C, 0x000D, 0x0020, 0x00A0, 0x1680,
                0x2028, 0x2029, 0x202F, 0x205F, 0x3000, 0xFEFF]
      \<or> (0x2000 \<le> c \<and> c \<le> 0x200A))"

definition trim :: "js_string \<Rightarrow> js_string" where
  "trim s = rev (dropWhile is_white_space (rev (dropWhile is_white_space s)))"

text \<open>\<open>a || b\<close> on a possibly missing string: \<open>undefined\<close> and \<open>""\<close> are falsy.\<close>

definition or_default :: "js_string option \<Rightarrow> js_string \<Rightarrow> js_string" where
  "or_default a b = (case a of None \<Rightarrow> b | Some v \<Rightarrow> if v = [] then b else v)"

section \<open>Data model (types.ts)\<close>

text \<open>
  TypeScript's types are erased at run time and the segments are parsed from a model's
  JSON answer, so \<open>format\<close> and \<open>category\<close> are held as the strings they are at run
  time; the \<open>default\<close> arm of the widget dispatch exists for exactly that reason.
  \<open>bounds\<close> (floating-point percentages) is read by the canvas layer only and is
  left out of the record.
\<close>

record StatItem =
  label :: js_string
  val :: js_string
  icon :: "js_string option"

record ActionItem =
  label :: js_string
  url :: "js_string option"

record Segment =
  label :: js_string
  format :: js_string
  description :: js_string
  category :: js_string
  icon :: js_string
  stats :: "StatItem list option"
  sourceUrl :: "js_string option"
  sourceName :: "js_string option"
  actions :: "ActionItem list option"

record AnalysisResult =
  segments :: "Segment list"

record GeneratedImage =
  base64 :: js_string
  mimeType :: js_string
  groundingUrls :: "(js_string \<times> js_string) list"

section \<open>The application state machine (App)\<close>

datatype AppStatus = Idle | Generating | Analyzing | Complete

definition SUGGESTIONS :: "js_string list" where
  "SUGGESTIONS =
     [js_str ''Ecosystem of a Cloud City'',
      js_str ''Hidden Geometry of a Fairy Ring'',
      js_str ''Anatomy of a Dragon'']"

definition ANALYSIS_PHRASES :: "js_string list" where
  "ANALYSIS_PHRASES =
     [js_str ''Scanning visual topography...'',
      js_str ''Identifying key data nodes...'',
      js_str ''Synthesizing contextual widgets...'',
      js_str ''Cross-referencing knowledge bases...'',
      js_str ''Generating immersive annotations...'']"

text \<open>The value of the \<open>data\<close> hook: \<open>{ image, analysis | null }\<close>.\<close>

record AppData =
  image :: GeneratedImage
  analysis :: "AnalysisResult option"

text \<open>The five \<open>useState\<close> hooks of \<open>App\<close>, with their initial values.\<close>

record AppState =
  query :: js_string
  status :: AppStatus
  data :: "AppData option"
  error :: "js_string option"
  analysisPhrase :: js_string

definition App_initial :: AppState where
  "App_initial =
     \<lparr>query = [], status = Idle, data = None, error = None,
      analysisPhrase = ANALYSIS_PHRASES ! 0\<rparr>"

text \<open>
  What a handler does, in program order: calls of the state setters and calls of the two
  collaborators of \<open>services/geminiService\<close>. An \<open>Await\<close> is where the async
  function suspends; its continuation is a separate function below.
  \<open>ThrowTypeError\<close> is an exception that leaves \<open>processSearch\<close> uncaught: its
  promise rejects, nobody handles it, and no state is written. The console calls are not
  modelled.
\<close>

datatype call =
    GenerateInfographic js_string
  | AnalyzeImageRegions js_string js_string

datatype effect =
    SetQuery js_string
  | SetStatus AppStatus
  | SetData "AppData option"
  | SetError "js_string option"
  | SetAnalysisPhrase js_string
  | Await call
  | ThrowTypeError

fun apply_effect :: "effect \<Rightarrow> AppState \<Rightarrow> AppState" where
  "apply_effect (SetQuery v) s = s\<lparr>query := v\<rparr>"
| "apply_effect (SetStatus v) s = s\<lparr>status := v\<rparr>"
| "apply_effect (SetData v) s = s\<lparr>data := v\<rparr>"
| "apply_effect (SetError v) s = s\<lparr>error := v\<rparr>"
| "apply_effect (SetAnalysisPhrase v) s = s\<lparr>analysisPhrase := v\<rparr>"
| "apply_effect (Await c) s = s"
| "apply_effect ThrowTypeError s = s"

fun exec :: "effect list \<Rightarrow> AppState \<Rightarrow> AppState" where
  "exec [] s = s"
| "exec (e # es) s = exec es (apply_effect e s)"

fun calls_of :: "effect list \<Rightarrow> call list" where
  "calls_of [] = []"
| "calls_of (Await c # es) = c # calls_of es"
| "calls_of (e # es) = calls_of es"

text \<open>
  A value caught by \<open>catch (err: any)\<close>, that is, whatever a collaborator's promise
  was rejected with: \<open>null\<close> or \<open>undefined\<close> (\<open>Nullish\<close>), or any other value,
  given by its \<open>message\<close> property (\<open>None\<close> when the property is missing). A
  message that is present is taken to be a string, as it is for every \<open>Error\<close>.
\<close>

datatype js_error =
    Nullish
  | Thrown "js_string option"

definition FALLBACK_MESSAGE :: js_string where
  "FALLBACK_MESSAGE =
     js_str ''Something went wrong. Please check your network and try again.''"

text \<open>\<open>processSearch\<close>, up to its first \<open>await\<close>.\<close>

definition processSearch :: "js_string \<Rightarrow> effect list" where
  "processSearch searchQuery =
     (if trim searchQuery = [] then []
      else [SetStatus Generating, SetError None, SetData None,
            Await (GenerateInfographic searchQuery)])"

text \<open>
  The \<open>catch\<close> block of \<open>processSearch\<close>. The argument of \<open>setError\<close> is
  evaluated first: reading \<open>err.message\<close> of \<open>null\<close> or \<open>undefined\<close> throws a
  \<open>TypeError\<close> inside the block, before either setter is called.
\<close>

fun processSearch_catch :: "js_error \<Rightarrow> effect list" where
  "processSearch_catch Nullish = [ThrowTypeError]"
| "processSearch_catch (Thrown message) =
     [SetError (Some (or_default message FALLBACK_MESSAGE)), SetStatus Idle]"

text \<open>
  \<open>processSearch\<close> resumed when \<open>generateInfographic\<close> settles: rejected
  (\<open>Inl\<close>, control goes to the \<open>catch\<close> block) or fulfilled with the image.
\<close>

definition processSearch_generated ::
  "js_string \<Rightarrow> js_error + GeneratedImage \<Rightarrow> effect list" where
  "processSearch_generated searchQuery r =
     (case r of
        Inl err \<Rightarrow> processSearch_catch err
      | Inr img \<Rightarrow>
          [SetData (Some \<lparr>image = img, analysis = None\<rparr>),
           SetStatus Analyzing,
           SetAnalysisPhrase (ANALYSIS_PHRASES ! 0),
           Await (AnalyzeImageRegions searchQuery (base64 img))])"

text \<open>
  \<open>processSearch\<close> resumed when \<open>analyzeImageRegions\<close> settles; \<open>img\<close> is the
  local \<open>image\<close> of the suspended call.
\<close>

definition processSearch_analyzed ::
  "GeneratedImage \<Rightarrow> js_error + AnalysisResult \<Rightarrow> effect list" where
  "processSearch_analyzed img r =
     (case r of
        Inl err \<Rightarrow> processSearch_catch err
      | Inr res \<Rightarrow>
          [SetData (Some \<lparr>image = img, analysis = Some res\<rparr>),
           SetStatus Complete])"

text \<open>The event handlers. \<open>handleSearch\<close> reads the \<open>query\<close> of the current render.\<close>

definition handleSearch :: "AppState \<Rightarrow> effect list" where
  "handleSearch s = processSearch (query s)"

definition handleSuggestionClick :: "js_string \<Rightarrow> effect list" where
  "handleSuggestionClick suggestion = SetQuery suggestion # processSearch suggestion"

definition handleReset :: "effect list" where
  "handleReset = [SetData None, SetStatus Idle, SetQuery [], SetError None]"

text \<open>
  The interval of the \<open>useEffect\<close> hook, alive while \<open>status\<close> is \<open>analyzing\<close>:
  \<open>interval_ticks index n\<close> is what its next \<open>n\<close> callbacks do, from the local
  \<open>index\<close> (0 when the interval is created).
\<close>

fun interval_ticks :: "nat \<Rightarrow> nat \<Rightarrow> effect list" where
  "interval_ticks index 0 = []"
| "interval_ticks index (Suc n) =
     SetAnalysisPhrase (ANALYSIS_PHRASES ! ((index + 1) mod length ANALYSIS_PHRASES))
       # interval_ticks ((index + 1) mod length ANALYSIS_PHRASES) n"

text \<open>
  The render of \<open>App\<close>: the image canvas is mounted only under this condition
  (\<open>(status === 'analyzing' || status === 'complete') && data\<close>).
\<close>

definition shows_canvas :: "AppState \<Rightarrow> bool" where
  "shows_canvas s = ((status s = Analyzing \<or> status s = Complete) \<and> data s \<noteq> None)"

text \<open>
  One uninterrupted run of \<open>processSearch searchQuery\<close>: \<open>generateInfographic\<close>
  settles with \<open>g\<close>; if it was fulfilled, the interval fires \<open>n\<close> times while the
  analysis is pending and \<open>analyzeImageRegions\<close> settles with \<open>a\<close>.
\<close>

definition processSearch_run ::
  "js_string \<Rightarrow> js_error + GeneratedImage \<Rightarrow> nat \<Rightarrow> js_error + AnalysisResult
     \<Rightarrow> effect list" where
  "processSearch_run searchQuery g n a =
     (if trim searchQuery = [] then []
      else processSearch searchQuery @ processSearch_generated searchQuery g @
           (case g of
              Inl err \<Rightarrow> []
            | Inr img \<Rightarrow> interval_ticks 0 n @ processSearch_analyzed img a))"

section \<open>The widget rendering engine (WidgetEngine)\<close>

text \<open>
  A rendered element: its tag, its \<open>className\<close> and its children, or a text node.
  React's \<open>key\<close> and the animation properties of \<open>motion.div\<close> are not part of the
  rendered content and are left out. A JSX child that evaluates to \<open>false\<close> or
  \<open>undefined\<close> renders nothing: it contributes no child.
\<close>

datatype node =
    Text js_string
  | Element string string "node list"

fun children :: "node \<Rightarrow> node list" where
  "children (Text t) = []"
| "children (Element tag cls kids) = kids"

text \<open>The text nodes of a rendered tree, in document order.\<close>

fun texts_of :: "node \<Rightarrow> js_string list" where
  "texts_of (Text t) = [t]"
| "texts_of (Element tag cls kids) = concat (map texts_of kids)"

text \<open>\<open>a || b\<close> on a string: the empty string is falsy.\<close>

definition str_or :: "js_string \<Rightarrow> js_string \<Rightarrow> js_string" where
  "str_or a b = (if a = [] then b else a)"

text \<open>The default glyphs, as UTF-16: U+2728, U+1F50D, U+1F4CA, U+1F680.\<close>

definition SPARKLES :: js_string where
  "SPARKLES = [0x2728]"

definition MAGNIFIER :: js_string where
  "MAGNIFIER = [0xD83D, 0xDD0D]"

definition BAR_CHART :: js_string where
  "BAR_CHART = [0xD83D, 0xDCCA]"

definition ROCKET :: js_string where
  "ROCKET = [0xD83D, 0xDE80]"

definition GLASS_PANEL :: string where
  "GLASS_PANEL = ''bg-black/90 backdrop-blur-xl border border-white/10 shadow-[0_0_40px_rgba(0,0,0,0.6)] w-full max-h-[80vh] overflow-y-auto scrollbar-thin scrollbar-thumb-white/20 scrollbar-track-transparent''"

definition MiniWidget :: "Segment \<Rightarrow> node" where
  "MiniWidget segment =
     Element ''motion.div'' ''bg-black/95 backdrop-blur-md border border-cyan-500/30 px-6 py-3 rounded-full flex items-center gap-4 shadow-[0_0_30px_rgba(0,0,0,0.5)] mx-auto w-fit''
       [Element ''span'' ''text-2xl shrink-0'' [Text (str_or (Segment.icon segment) SPARKLES)],
        Element ''span'' ''text-lg font-bold text-white tracking-wide''
          [Text (Segment.label segment)]]"

definition CompactWidget :: "Segment \<Rightarrow> node" where
  "CompactWidget segment =
     Element ''motion.div'' (GLASS_PANEL @ '' p-6 rounded-2xl relative group'')
       [Element ''div'' ''absolute top-0 left-0 w-full h-[2px] bg-gradient-to-r from-cyan-500 via-purple-500 to-transparent opacity-70'' [],
        Element ''div'' ''flex items-start gap-5 mb-4''
          [Element ''div'' ''w-12 h-12 rounded-xl bg-white/5 border border-white/10 flex items-center justify-center text-3xl shadow-inner shrink-0''
             [Text (str_or (Segment.icon segment) MAGNIFIER)],
           Element ''div'' ''min-w-0 flex-1 pt-1''
             [Element ''div'' ''text-xs uppercase tracking-[0.2em] text-cyan-400 font-bold mb-1 truncate''
                [Text (str_or (category segment) (js_str ''Concept''))],
              Element ''h3'' ''font-bold text-white text-2xl leading-tight break-words''
                [Text (Segment.label segment)]]],
        Element ''p'' ''text-base text-gray-300 leading-relaxed font-light''
          [Text (description segment)]]"

text \<open>
  The parts of \<open>StatsWidget\<close>: one card per stat (\<open>segment.stats?.map\<close>), the
  placeholder, and the grid that holds them.
\<close>

definition StatsWidget_card :: "StatItem \<Rightarrow> node" where
  "StatsWidget_card stat =
     Element ''div'' ''bg-white/5 rounded-xl p-4 border border-white/5 hover:border-cyan-500/30 transition-colors''
       [Element ''div'' ''text-cyan-400 font-mono font-bold text-xl truncate'' [Text (val stat)],
        Element ''div'' ''text-xs text-gray-500 uppercase tracking-wide mt-1 truncate''
          [Text (StatItem.label stat)]]"

definition StatsWidget_unavailable :: node where
  "StatsWidget_unavailable =
     Element ''div'' ''col-span-2 text-sm text-gray-500 italic p-4 text-center''
       [Text (js_str ''Detailed metrics unavailable.'')]"

definition StatsWidget_grid :: "Segment \<Rightarrow> node" where
  "StatsWidget_grid segment =
     Element ''div'' ''grid grid-cols-2 gap-4''
       ((case stats segment of None \<Rightarrow> [] | Some xs \<Rightarrow> map StatsWidget_card xs) @
        (case stats segment of
           None \<Rightarrow> [StatsWidget_unavailable]
         | Some xs \<Rightarrow> if length xs = 0 then [StatsWidget_unavailable] else []))"

definition StatsWidget :: "Segment \<Rightarrow> node" where
  "StatsWidget segment =
     Element ''motion.div'' (GLASS_PANEL @ '' p-6 rounded-2xl relative'')
       [Element ''div'' ''flex justify-between items-center mb-5 pb-5 border-b border-white/5 sticky top-0 bg-black/90 backdrop-blur-xl z-10 -mx-6 px-6 -mt-6 pt-6 rounded-t-2xl''
          [Element ''h3'' ''font-bold text-white text-xl flex items-center gap-3 truncate pr-2''
             [Element ''span'' ''text-2xl'' [Text (str_or (Segment.icon segment) BAR_CHART)],
              Element ''span'' ''truncate'' [Text (Segment.label segment)]],
           Element ''div'' ''px-3 py-1 rounded text-[10px] font-bold bg-purple-500/20 text-purple-200 uppercase tracking-wider border border-purple-500/20 shrink-0''
             [Text (js_str ''Data'')]],
        StatsWidget_grid segment,
        Element ''p'' ''mt-5 text-sm text-gray-400 border-t border-white/5 pt-4 leading-relaxed''
          [Text (description segment)]]"

text \<open>
  The parts of \<open>DetailedWidget\<close>: one cell per stat, the strip of cells, and the
  content block, whose strip is guarded by \<open>segment.stats && segment.stats.length > 0\<close>.
\<close>

definition DetailedWidget_stat :: "StatItem \<Rightarrow> node" where
  "DetailedWidget_stat stat =
     Element ''div'' ''flex-shrink-0 bg-white/5 rounded-lg px-4 py-3 border border-white/5 min-w-[100px]''
       [Element ''div'' ''text-[10px] text-gray-500 uppercase font-bold tracking-wider truncate''
          [Text (StatItem.label stat)],
        Element ''div'' ''text-white font-mono font-medium text-lg truncate'' [Text (val stat)]]"

definition DetailedWidget_strip :: "StatItem list \<Rightarrow> node" where
  "DetailedWidget_strip xs =
     Element ''div'' ''flex gap-4 mb-6 overflow-x-auto pb-2 scrollbar-none''
       (map DetailedWidget_stat xs)"

definition DetailedWidget_content :: "Segment \<Rightarrow> node" where
  "DetailedWidget_content segment =
     Element ''div'' ''p-6 bg-black/40''
       (Element ''p'' ''text-base text-gray-300 leading-relaxed mb-6 font-light''
          [Text (description segment)] #
        (case stats segment of
           None \<Rightarrow> []
         | Some xs \<Rightarrow> if length xs > 0 then [DetailedWidget_strip xs] else []))"

definition DetailedWidget :: "Segment \<Rightarrow> node" where
  "DetailedWidget segment =
     Element ''motion.div'' (GLASS_PANEL @ '' p-0 rounded-2xl flex flex-col'')
       [Element ''div'' ''bg-gradient-to-br from-zinc-900 to-black border-b border-white/10 p-6 relative overflow-hidden shrink-0''
          [Element ''div'' ''absolute top-[-30px] right-[-30px] w-32 h-32 bg-cyan-500/20 rounded-full blur-3xl'' [],
           Element ''div'' ''absolute bottom-[-30px] left-[-30px] w-32 h-32 bg-purple-500/20 rounded-full blur-3xl'' [],
           Element ''div'' ''relative z-10''
             [Element ''div'' ''flex justify-between items-start mb-3''
                [Element ''span'' ''inline-block px-3 py-1 rounded text-[10px] font-bold bg-white/10 text-cyan-200 border border-cyan-500/20 uppercase tracking-wide''
                   [Text (str_or (category segment) (js_str ''Deep Dive''))],
                 Element ''span'' ''text-4xl filter drop-shadow-glow shrink-0 ml-3''
                   [Text (str_or (Segment.icon segment) ROCKET)]],
              Element ''h3'' ''font-bold text-3xl text-white mb-2 leading-tight break-words''
                [Text (Segment.label segment)],
              Element ''div'' ''w-16 h-1.5 bg-gradient-to-r from-cyan-500 to-purple-600 rounded-full'' []]],
        DetailedWidget_content segment]"

text \<open>The factory: a \<open>switch\<close> on \<open>segment.format\<close> with strict equality.\<close>

definition WidgetEngine :: "Segment \<Rightarrow> node" where
  "WidgetEngine segment =
     (if format segment = js_str ''mini'' then MiniWidget segment
      else if format segment = js_str ''stats'' then StatsWidget segment
      else if format segment = js_str ''detailed'' then DetailedWidget segment
      else if format segment = js_str ''compact'' then CompactWidget segment
      else CompactWidget segment)"

section \<open>Facts about the setters and the segments of a run\<close>

lemma dropWhile_all_iff: "(\<forall>x\<in>set (dropWhile P xs). P x) \<longleftrightarrow> (\<forall>x\<in>set xs. P x)"
  by (induction xs) auto

lemma trim_empty_iff: "trim s = [] \<longleftrightarrow> (\<forall>c\<in>set s. is_white_space c)"
  by (simp add: trim_def dropWhile_eq_Nil_conv dropWhile_all_iff)

lemma exec_append: "exec (xs @ ys) s = exec ys (exec xs s)"
  by (induction xs arbitrary: s) simp_all

lemma exec_interval_ticks:
  "exec (interval_ticks i n) s =
     s\<lparr>analysisPhrase :=
         (if n = 0 then analysisPhrase s
          else ANALYSIS_PHRASES ! ((i + n) mod length ANALYSIS_PHRASES))\<rparr>"
proof (induction n arbitrary: i s)
  case 0
  show ?case by simp
next
  case (Suc n)
  have "((i + 1) mod length ANALYSIS_PHRASES + n) mod length ANALYSIS_PHRASES =
        (i + Suc n) mod length ANALYSIS_PHRASES"
    by (simp add: mod_add_left_eq)
  then show ?case by (simp add: Suc.IH)
qed

lemma exec_processSearch:
  "trim q \<noteq> [] \<Longrightarrow>
   exec (processSearch q) s = s\<lparr>status := Generating, error := None, data := None\<rparr>"
  by (simp add: processSearch_def)

lemma exec_catch:
  "exec (processSearch_catch (Thrown m)) s =
     s\<lparr>error := Some (or_default m FALLBACK_MESSAGE), status := Idle\<rparr>"
  by simp

lemma exec_catch_nullish: "exec (processSearch_catch Nullish) s = s"
  by simp

lemma query_exec_catch: "query (exec (processSearch_catch err) s) = query s"
  by (cases err) simp_all

lemma exec_generated_ok:
  "exec (processSearch_generated q (Inr img)) s =
     s\<lparr>data := Some \<lparr>image = img, analysis = None\<rparr>, status := Analyzing,
       analysisPhrase := ANALYSIS_PHRASES ! 0\<rparr>"
  by (simp add: processSearch_generated_def)

lemma exec_analyzed_ok:
  "exec (processSearch_analyzed img (Inr res)) s =
     s\<lparr>data := Some \<lparr>image = img, analysis = Some res\<rparr>, status := Complete\<rparr>"
  by (simp add: processSearch_analyzed_def)

lemma run_generation_fails:
  assumes "trim q \<noteq> []"
  shows "exec (processSearch_run q (Inl (Thrown m)) n a) s =
           s\<lparr>status := Idle, data := None,
             error := Some (or_default m FALLBACK_MESSAGE)\<rparr>"
  using assms
  by (simp add: processSearch_run_def exec_append exec_processSearch
      processSearch_generated_def)

lemma run_analysis_fails:
  assumes "trim q \<noteq> []"
  shows "exec (processSearch_run q (Inr img) n (Inl (Thrown m))) s =
           s\<lparr>status := Idle, data := Some \<lparr>image = img, analysis = None\<rparr>,
             error := Some (or_default m FALLBACK_MESSAGE),
             analysisPhrase := ANALYSIS_PHRASES ! (n mod length ANALYSIS_PHRASES)\<rparr>"
  using assms
  by (simp add: processSearch_run_def exec_append exec_processSearch exec_generated_ok
      exec_interval_ticks processSearch_analyzed_def)

lemma query_exec_interval_ticks: "query (exec (interval_ticks i n) s) = query s"
  by (simp add: exec_interval_ticks)

lemma run_succeeds:
  assumes "trim q \<noteq> []"
  shows "exec (processSearch_run q (Inr img) n (Inr res)) s =
           s\<lparr>status := Complete, data := Some \<lparr>image = img, analysis = Some res\<rparr>,
             error := None,
             analysisPhrase := ANALYSIS_PHRASES ! (n mod length ANALYSIS_PHRASES)\<rparr>"
  using assms
  by (simp add: processSearch_run_def exec_append exec_processSearch exec_generated_ok
      exec_interval_ticks exec_analyzed_ok)

section \<open>Facts about the dispatch and the catch block\<close>

lemma format_literals_distinct:
  "js_str ''stats'' \<noteq> js_str ''mini''"
  "js_str ''detailed'' \<noteq> js_str ''mini''"
  "js_str ''detailed'' \<noteq> js_str ''stats''"
  "js_str ''compact'' \<noteq> js_str ''mini''"
  "js_str ''compact'' \<noteq> js_str ''stats''"
  "js_str ''compact'' \<noteq> js_str ''detailed''"
  by (simp_all add: js_str_def)

lemma WidgetEngine_stats:
  "format seg = js_str ''stats'' \<Longrightarrow> WidgetEngine seg = StatsWidget seg"
  by (simp add: WidgetEngine_def format_literals_distinct)

lemma WidgetEngine_detailed:
  "format seg = js_str ''detailed'' \<Longrightarrow> WidgetEngine seg = DetailedWidget seg"
  by (simp add: WidgetEngine_def format_literals_distinct)

text \<open>
  For a failure that is an object, the \<open>catch\<close> block shows its message, or the
  fallback string when the message is missing or empty, and returns to \<open>idle\<close>.
\<close>

lemma catch_shows_message_or_fallback:
  "(m \<noteq> [] \<longrightarrow>
        error (exec (processSearch_generated q (Inl (Thrown (Some m)))) s) = Some m
      \<and> error (exec (processSearch_analyzed img (Inl (Thrown (Some m)))) s) = Some m)
   \<and> error (exec (processSearch_generated q (Inl (Thrown None))) s) = Some FALLBACK_MESSAGE
   \<and> error (exec (processSearch_analyzed img (Inl (Thrown None))) s) = Some FALLBACK_MESSAGE
   \<and> error (exec (processSearch_generated q (Inl (Thrown (Some [])))) s)
       = Some FALLBACK_MESSAGE
   \<and> error (exec (processSearch_analyzed img (Inl (Thrown (Some [])))) s)
       = Some FALLBACK_MESSAGE
   \<and> status (exec (processSearch_generated q (Inl (Thrown mo))) s) = Idle
   \<and> status (exec (processSearch_analyzed img (Inl (Thrown mo))) s) = Idle"
  by (simp add: processSearch_generated_def processSearch_analyzed_def or_default_def)

section \<open>Failure paths of the state machine\<close>

text \<open>
  C1, as stated, fails: after a run in which generation succeeds and analysis fails
  without a message, \<open>data\<close> is not \<open>null\<close>; it still holds the generated image
  with \<open>analysis = null\<close>. The \<open>catch\<close> block calls \<open>setError\<close> and
  \<open>setStatus\<close> only.
\<close>

theorem analysis_failure_data_not_null:
  "data (exec (processSearch_run (js_str ''Y'')
                 (Inr \<lparr>base64 = js_str ''iVBORw0KGgo='', mimeType = js_str ''image/png'',
                       groundingUrls = []\<rparr>)
                 0 (Inl (Thrown None))) App_initial)
     = Some \<lparr>image = \<lparr>base64 = js_str ''iVBORw0KGgo='', mimeType = js_str ''image/png'',
                       groundingUrls = []\<rparr>, analysis = None\<rparr>
   \<and> data (exec (processSearch_run (js_str ''Y'')
                 (Inr \<lparr>base64 = js_str ''iVBORw0KGgo='', mimeType = js_str ''image/png'',
                       groundingUrls = []\<rparr>)
                 0 (Inl (Thrown None))) App_initial) \<noteq> None"
proof -
  have "trim (js_str ''Y'') \<noteq> []"
    by (simp add: trim_def js_str_def is_white_space_def)
  then show ?thesis
    by (simp add: run_analysis_fails)
qed

text \<open>
  C1, amended: for every run in which image generation succeeds and region analysis then
  fails with a value other than \<open>null\<close> or \<open>undefined\<close> (whatever the number of
  interval ticks in between, from any starting state), the resulting state has
  \<open>status = idle\<close>, \<open>error\<close> the failure's message or the fallback string, and
  \<open>data\<close> still \<open>{image, analysis: null}\<close>: the image is retained in state, and
  only hidden, since the canvas is not rendered in \<open>idle\<close>.
\<close>

theorem analysis_failure_keeps_image:
  assumes "trim q \<noteq> []"
  shows "status (exec (processSearch_run q (Inr img) n (Inl (Thrown m))) s) = Idle
       \<and> data (exec (processSearch_run q (Inr img) n (Inl (Thrown m))) s)
           = Some \<lparr>image = img, analysis = None\<rparr>
       \<and> error (exec (processSearch_run q (Inr img) n (Inl (Thrown m))) s)
           = Some (or_default m FALLBACK_MESSAGE)
       \<and> \<not> shows_canvas (exec (processSearch_run q (Inr img) n (Inl (Thrown m))) s)"
  using assms by (simp add: run_analysis_fails shows_canvas_def)

text \<open>
  C1, witness: the query \<open>"Y"\<close>, three interval ticks, a failure without message,
  from the initial state.
\<close>

theorem analysis_failure_keeps_image_witness:
  "trim (js_str ''Y'') \<noteq> []
   \<and> status (exec (processSearch_run (js_str ''Y'')
                 (Inr \<lparr>base64 = js_str ''iVBORw0KGgo='', mimeType = js_str ''image/png'',
                       groundingUrls = []\<rparr>)
                 3 (Inl (Thrown None))) App_initial) = Idle
   \<and> error (exec (processSearch_run (js_str ''Y'')
                 (Inr \<lparr>base64 = js_str ''iVBORw0KGgo='', mimeType = js_str ''image/png'',
                       groundingUrls = []\<rparr>)
                 3 (Inl (Thrown None))) App_initial) = Some FALLBACK_MESSAGE
   \<and> data (exec (processSearch_run (js_str ''Y'')
                 (Inr \<lparr>base64 = js_str ''iVBORw0KGgo='', mimeType = js_str ''image/png'',
                       groundingUrls = []\<rparr>)
                 3 (Inl (Thrown None))) App_initial)
       = Some \<lparr>image = \<lparr>base64 = js_str ''iVBORw0KGgo='', mimeType = js_str ''image/png'',
                         groundingUrls = []\<rparr>, analysis = None\<rparr>"
proof -
  have h: "trim (js_str ''Y'') \<noteq> []"
    by (simp add: trim_def js_str_def is_white_space_def)
  show ?thesis
    using h analysis_failure_keeps_image [OF h, of "\<lparr>base64 = js_str ''iVBORw0KGgo='', mimeType = js_str ''image/png'',
                       groundingUrls = []\<rparr>" 3 None App_initial]
    by (simp add: or_default_def)
qed

text \<open>
  C2, as stated, fails: submit \<open>"A"\<close>, reset while the generation is pending (the
  machine is back in \<open>idle\<close> with \<open>data = null\<close>), then the superseded
  generation is fulfilled: the continuation sets \<open>status\<close> to \<open>analyzing\<close> and
  stores the late image.
\<close>

theorem late_image_after_reset_overwrites:
  "status (exec (processSearch (js_str ''A'') @ handleReset) App_initial) = Idle
   \<and> data (exec (processSearch (js_str ''A'') @ handleReset) App_initial) = None
   \<and> status (exec (processSearch_generated (js_str ''A'')
                (Inr \<lparr>base64 = js_str ''iVBORw0KGgo='', mimeType = js_str ''image/png'',
                      groundingUrls = []\<rparr>))
              (exec (processSearch (js_str ''A'') @ handleReset) App_initial)) = Analyzing
   \<and> data (exec (processSearch_generated (js_str ''A'')
                (Inr \<lparr>base64 = js_str ''iVBORw0KGgo='', mimeType = js_str ''image/png'',
                      groundingUrls = []\<rparr>))
              (exec (processSearch (js_str ''A'') @ handleReset) App_initial))
       = Some \<lparr>image = \<lparr>base64 = js_str ''iVBORw0KGgo='', mimeType = js_str ''image/png'',
                         groundingUrls = []\<rparr>, analysis = None\<rparr>"
proof -
  have "trim (js_str ''A'') \<noteq> []"
    by (simp add: trim_def js_str_def is_white_space_def)
  then show ?thesis
    by (simp add: exec_append exec_processSearch exec_generated_ok handleReset_def)
qed

text \<open>
  C2, amended: a late-arriving result is not ignored. Each continuation of
  \<open>processSearch\<close> writes its fields whatever the current state is: a fulfilled
  generation gives \<open>analyzing\<close> with the image and no analysis, a fulfilled analysis
  gives \<open>complete\<close> with image and analysis, and a rejection with a value other than
  \<open>null\<close> or \<open>undefined\<close> gives \<open>idle\<close>, stores the message or the fallback
  string as the error, and leaves \<open>data\<close> as it finds it.
\<close>

theorem continuations_apply_unconditionally:
  "status (exec (processSearch_generated q (Inr img)) s) = Analyzing
   \<and> data (exec (processSearch_generated q (Inr img)) s)
       = Some \<lparr>image = img, analysis = None\<rparr>
   \<and> status (exec (processSearch_analyzed img (Inr res)) s) = Complete
   \<and> data (exec (processSearch_analyzed img (Inr res)) s)
       = Some \<lparr>image = img, analysis = Some res\<rparr>
   \<and> status (exec (processSearch_generated q (Inl (Thrown m))) s) = Idle
   \<and> status (exec (processSearch_analyzed img (Inl (Thrown m))) s) = Idle
   \<and> error (exec (processSearch_generated q (Inl (Thrown m))) s)
       = Some (or_default m FALLBACK_MESSAGE)
   \<and> error (exec (processSearch_analyzed img (Inl (Thrown m))) s)
       = Some (or_default m FALLBACK_MESSAGE)
   \<and> data (exec (processSearch_generated q (Inl (Thrown m))) s) = data s
   \<and> data (exec (processSearch_analyzed img (Inl (Thrown m))) s) = data s"
  by (simp add: exec_generated_ok exec_analyzed_ok
      processSearch_generated_def processSearch_analyzed_def)

text \<open>
  C3, as stated, fails: with \<open>"X"\<close> typed and submitted, a generation failure
  leaves the machine in \<open>idle\<close> with \<open>query\<close> still \<open>"X"\<close>.
\<close>

theorem query_survives_generation_failure:
  "query (exec (handleSearch (App_initial\<lparr>query := js_str ''X''\<rparr>)
                @ processSearch_generated (js_str ''X'')
                    (Inl (Thrown (Some (js_str ''quota exceeded'')))))
            (App_initial\<lparr>query := js_str ''X''\<rparr>)) = js_str ''X''
   \<and> js_str ''X'' \<noteq> []
   \<and> status (exec (handleSearch (App_initial\<lparr>query := js_str ''X''\<rparr>)
                @ processSearch_generated (js_str ''X'')
                    (Inl (Thrown (Some (js_str ''quota exceeded'')))))
            (App_initial\<lparr>query := js_str ''X''\<rparr>)) = Idle"
proof -
  have "trim (js_str ''X'') \<noteq> []"
    by (simp add: trim_def js_str_def is_white_space_def)
  moreover have "js_str ''X'' \<noteq> []"
    by (simp add: js_str_def)
  ultimately show ?thesis
    by (simp add: handleSearch_def exec_append exec_processSearch exec_catch
        processSearch_generated_def)
qed

text \<open>
  C3, amended: for every run in which the generation call or the analysis call fails, the
  \<open>query\<close> field is preserved: \<open>processSearch\<close> and its \<open>catch\<close> block never
  write it, so the state still holds the typed query (or the clicked suggestion) after the
  machine has returned to \<open>idle\<close>.
\<close>

theorem failure_preserves_query:
  "query (exec (processSearch_run q (Inl err) n a) s) = query s
   \<and> query (exec (processSearch_run q (Inr img) n (Inl err)) s) = query s
   \<and> query (exec (handleSearch s @ processSearch_generated (query s) (Inl err)) s) = query s
   \<and> query (exec (handleSuggestionClick q @ processSearch_generated q (Inl err)) s) = q"
proof -
  have g: "query (exec (processSearch_generated q' (Inl err)) s') = query s'" for q' s'
    by (simp add: processSearch_generated_def query_exec_catch)
  have a: "query (exec (processSearch_analyzed img (Inl err)) s') = query s'" for s'
    by (simp add: processSearch_analyzed_def query_exec_catch)
  have p: "query (exec (processSearch q') s') = query s'" for q' s'
    by (simp add: processSearch_def)
  have "query (exec (processSearch_generated q (Inr img)) s') = query s'" for s'
    by (simp add: exec_generated_ok)
  then show ?thesis
    by (simp add: processSearch_run_def handleSearch_def handleSuggestionClick_def
        exec_append g a p query_exec_interval_ticks)
qed

text \<open>
  C5 holds for every failure that is an object, as \<open>catch_shows_message_or_fallback\<close>
  says, but not for every failure: when a call is rejected with \<open>null\<close> or
  \<open>undefined\<close>, the \<open>catch\<close> block throws on \<open>err.message\<close> before it calls a
  setter. After such a generation failure the status is still \<open>generating\<close>, after such
  an analysis failure it is still \<open>analyzing\<close> with the canvas mounted, and no error is
  displayed in either case.
\<close>

theorem nullish_rejection_never_returns_to_idle:
  "status (exec (processSearch (js_str ''X'')
                 @ processSearch_generated (js_str ''X'') (Inl Nullish)) App_initial)
     = Generating
   \<and> error (exec (processSearch (js_str ''X'')
                 @ processSearch_generated (js_str ''X'') (Inl Nullish)) App_initial)
     = None
   \<and> status (exec (processSearch (js_str ''Y'')
                 @ processSearch_generated (js_str ''Y'')
                     (Inr \<lparr>base64 = js_str ''iVBORw0KGgo='', mimeType = js_str ''image/png'',
                           groundingUrls = []\<rparr>)
                 @ processSearch_analyzed
                     \<lparr>base64 = js_str ''iVBORw0KGgo='', mimeType = js_str ''image/png'',
                      groundingUrls = []\<rparr> (Inl Nullish)) App_initial)
     = Analyzing
   \<and> error (exec (processSearch (js_str ''Y'')
                 @ processSearch_generated (js_str ''Y'')
                     (Inr \<lparr>base64 = js_str ''iVBORw0KGgo='', mimeType = js_str ''image/png'',
                           groundingUrls = []\<rparr>)
                 @ processSearch_analyzed
                     \<lparr>base64 = js_str ''iVBORw0KGgo='', mimeType = js_str ''image/png'',
                      groundingUrls = []\<rparr> (Inl Nullish)) App_initial)
     = None
   \<and> shows_canvas (exec (processSearch (js_str ''Y'')
                 @ processSearch_generated (js_str ''Y'')
                     (Inr \<lparr>base64 = js_str ''iVBORw0KGgo='', mimeType = js_str ''image/png'',
                           groundingUrls = []\<rparr>)
                 @ processSearch_analyzed
                     \<lparr>base64 = js_str ''iVBORw0KGgo='', mimeType = js_str ''image/png'',
                      groundingUrls = []\<rparr> (Inl Nullish)) App_initial)"
proof -
  have "trim (js_str ''X'') \<noteq> []" and "trim (js_str ''Y'') \<noteq> []"
    by (simp_all add: trim_def js_str_def is_white_space_def)
  then show ?thesis
    by (simp add: exec_append exec_processSearch exec_generated_ok shows_canvas_def
        processSearch_generated_def processSearch_analyzed_def App_initial_def)
qed

section \<open>Submission and the generation result\<close>

text \<open>
  C4: when the generation is fulfilled, the continuation first stores the image with
  \<open>analysis = null\<close>, sets the status to \<open>analyzing\<close> and resets the phrase to the
  first of \<open>ANALYSIS_PHRASES\<close>; its last step, and its only call, is
  \<open>analyzeImageRegions\<close> with the query and the image's \<open>base64\<close>.
\<close>

theorem generation_success_enters_analyzing:
  "last (processSearch_generated q (Inr img)) = Await (AnalyzeImageRegions q (base64 img))
   \<and> calls_of (butlast (processSearch_generated q (Inr img))) = []
   \<and> calls_of (processSearch_generated q (Inr img)) = [AnalyzeImageRegions q (base64 img)]
   \<and> status (exec (butlast (processSearch_generated q (Inr img))) s) = Analyzing
   \<and> data (exec (butlast (processSearch_generated q (Inr img))) s)
       = Some \<lparr>image = img, analysis = None\<rparr>
   \<and> analysisPhrase (exec (butlast (processSearch_generated q (Inr img))) s)
       = hd ANALYSIS_PHRASES
   \<and> exec (processSearch_generated q (Inr img)) s
       = exec (butlast (processSearch_generated q (Inr img))) s"
  by (simp add: processSearch_generated_def ANALYSIS_PHRASES_def)

text \<open>
  C9: a query that is empty or made of white space only is a no-op, for
  \<open>processSearch\<close> and for \<open>handleSearch\<close> on a state holding that query: no
  setter runs, no call is made, the state is unchanged.
\<close>

theorem blank_query_is_noop:
  assumes "\<forall>c\<in>set q. is_white_space c"
  shows "processSearch q = []
       \<and> calls_of (processSearch q) = []
       \<and> exec (processSearch q) s = s
       \<and> (query s = q \<longrightarrow> handleSearch s = [] \<and> exec (handleSearch s) s = s)"
  using assms by (simp add: processSearch_def handleSearch_def trim_empty_iff)

text \<open>
  C9, witness: the query made of a space, a tab and an ideographic space.
\<close>

theorem blank_query_is_noop_witness:
  "is_white_space 0x0020 \<and> is_white_space 0x0009 \<and> is_white_space 0x3000
   \<and> query (App_initial\<lparr>query := [0x0020, 0x0009, 0x3000]\<rparr>) = [0x0020, 0x0009, 0x3000]
   \<and> processSearch [0x0020, 0x0009, 0x3000] = []
   \<and> exec (handleSearch (App_initial\<lparr>query := [0x0020, 0x0009, 0x3000]\<rparr>))
        (App_initial\<lparr>query := [0x0020, 0x0009, 0x3000]\<rparr>)
       = App_initial\<lparr>query := [0x0020, 0x0009, 0x3000]\<rparr>"
proof -
  have h: "\<forall>c\<in>set [0x0020, 0x0009, 0x3000]. is_white_space c"
    by (simp add: is_white_space_def)
  show ?thesis
    using h blank_query_is_noop [OF h, of "App_initial\<lparr>query := [0x0020, 0x0009, 0x3000]\<rparr>"]
    by simp
qed

text \<open>
  C10: \<open>processSearch\<close> has no precondition on the status. For a query that is not
  blank and from every state, it sets the status to \<open>generating\<close> and clears
  \<open>error\<close> and \<open>data\<close>, and only then calls \<open>generateInfographic\<close>, its last
  step and only call.
\<close>

theorem submit_has_no_status_precondition:
  assumes "trim q \<noteq> []"
  shows "last (processSearch q) = Await (GenerateInfographic q)
       \<and> calls_of (butlast (processSearch q)) = []
       \<and> status (exec (butlast (processSearch q)) s) = Generating
       \<and> error (exec (butlast (processSearch q)) s) = None
       \<and> data (exec (butlast (processSearch q)) s) = None
       \<and> exec (processSearch q) s = s\<lparr>status := Generating, error := None, data := None\<rparr>"
  using assms by (simp add: processSearch_def)

text \<open>
  C10, witness: a submission from a \<open>complete\<close> state that holds a result and a
  stale error.
\<close>

theorem submit_has_no_status_precondition_witness:
  "trim (js_str ''Anatomy of a Dragon'') \<noteq> []
   \<and> status (exec (butlast (processSearch (js_str ''Anatomy of a Dragon'')))
       \<lparr>query = js_str ''old'', status = Complete,
        data = Some \<lparr>image = \<lparr>base64 = js_str ''iVBORw0KGgo='',
                              mimeType = js_str ''image/png'', groundingUrls = []\<rparr>,
                     analysis = Some \<lparr>segments = []\<rparr>\<rparr>,
        error = Some (js_str ''stale''), analysisPhrase = hd ANALYSIS_PHRASES\<rparr>) = Generating
   \<and> data (exec (butlast (processSearch (js_str ''Anatomy of a Dragon'')))
       \<lparr>query = js_str ''old'', status = Complete,
        data = Some \<lparr>image = \<lparr>base64 = js_str ''iVBORw0KGgo='',
                              mimeType = js_str ''image/png'', groundingUrls = []\<rparr>,
                     analysis = Some \<lparr>segments = []\<rparr>\<rparr>,
        error = Some (js_str ''stale''), analysisPhrase = hd ANALYSIS_PHRASES\<rparr>) = None
   \<and> last (processSearch (js_str ''Anatomy of a Dragon''))
       = Await (GenerateInfographic (js_str ''Anatomy of a Dragon''))"
proof -
  have h: "trim (js_str ''Anatomy of a Dragon'') \<noteq> []"
    by (simp add: trim_def js_str_def is_white_space_def)
  show ?thesis
    using h submit_has_no_status_precondition [OF h,
      of "\<lparr>query = js_str ''old'', status = Complete,
        data = Some \<lparr>image = \<lparr>base64 = js_str ''iVBORw0KGgo='',
                              mimeType = js_str ''image/png'', groundingUrls = []\<rparr>,
                     analysis = Some \<lparr>segments = []\<rparr>\<rparr>,
        error = Some (js_str ''stale''), analysisPhrase = hd ANALYSIS_PHRASES\<rparr>"]
    by simp
qed

section \<open>The widget dispatch and the stat sections\<close>

text \<open>
  C6: the dispatch is total. A segment whose format is none of \<open>mini\<close>,
  \<open>compact\<close>, \<open>stats\<close>, \<open>detailed\<close> gets the compact widget, and each of the
  four known formats gets its own widget.
\<close>

theorem WidgetEngine_dispatch:
  "(format seg \<notin> {js_str ''mini'', js_str ''compact'', js_str ''stats'', js_str ''detailed''}
      \<longrightarrow> WidgetEngine seg = CompactWidget seg)
   \<and> (format seg = js_str ''mini'' \<longrightarrow> WidgetEngine seg = MiniWidget seg)
   \<and> (format seg = js_str ''compact'' \<longrightarrow> WidgetEngine seg = CompactWidget seg)
   \<and> (format seg = js_str ''stats'' \<longrightarrow> WidgetEngine seg = StatsWidget seg)
   \<and> (format seg = js_str ''detailed'' \<longrightarrow> WidgetEngine seg = DetailedWidget seg)"
  by (simp add: WidgetEngine_def format_literals_distinct)

text \<open>
  C6, witness: the unknown format \<open>"hologram"\<close>, and the format \<open>mini\<close>.
\<close>

theorem WidgetEngine_dispatch_witness:
  "format \<lparr>label = js_str ''Core'', format = js_str ''hologram'',
           description = js_str ''A reactor'', category = js_str ''concept'',
           icon = [], stats = None, sourceUrl = None, sourceName = None, actions = None\<rparr>
     \<notin> {js_str ''mini'', js_str ''compact'', js_str ''stats'', js_str ''detailed''}
   \<and> WidgetEngine \<lparr>label = js_str ''Core'', format = js_str ''hologram'',
           description = js_str ''A reactor'', category = js_str ''concept'',
           icon = [], stats = None, sourceUrl = None, sourceName = None, actions = None\<rparr>
     = CompactWidget \<lparr>label = js_str ''Core'', format = js_str ''hologram'',
           description = js_str ''A reactor'', category = js_str ''concept'',
           icon = [], stats = None, sourceUrl = None, sourceName = None, actions = None\<rparr>
   \<and> WidgetEngine \<lparr>label = js_str ''Core'', format = js_str ''mini'',
           description = js_str ''A reactor'', category = js_str ''concept'',
           icon = [], stats = None, sourceUrl = None, sourceName = None, actions = None\<rparr>
     = Element ''motion.div'' ''bg-black/95 backdrop-blur-md border border-cyan-500/30 px-6 py-3 rounded-full flex items-center gap-4 shadow-[0_0_30px_rgba(0,0,0,0.5)] mx-auto w-fit''
         [Element ''span'' ''text-2xl shrink-0'' [Text [0x2728]],
          Element ''span'' ''text-lg font-bold text-white tracking-wide''
            [Text (js_str ''Core'')]]"
proof -
  have h: "js_str ''hologram''
     \<notin> {js_str ''mini'', js_str ''compact'', js_str ''stats'', js_str ''detailed''}"
    by (simp add: js_str_def)
  show ?thesis
    using h
      WidgetEngine_dispatch [of "\<lparr>label = js_str ''Core'', format = js_str ''hologram'',
           description = js_str ''A reactor'', category = js_str ''concept'',
           icon = [], stats = None, sourceUrl = None, sourceName = None, actions = None\<rparr>"]
      WidgetEngine_dispatch [of "\<lparr>label = js_str ''Core'', format = js_str ''mini'',
           description = js_str ''A reactor'', category = js_str ''concept'',
           icon = [], stats = None, sourceUrl = None, sourceName = None, actions = None\<rparr>"]
    by (simp add: MiniWidget_def str_or_def SPARKLES_def)
qed

text \<open>
  C7: for a segment of format \<open>stats\<close>, the grid is the second child of the widget.
  With \<open>stats\<close> absent or empty the grid holds the "unavailable" placeholder and
  nothing else, so it is never empty. With \<open>stats\<close> non-empty the grid holds one card
  per entry, in the order of the array, each showing that entry's value and then its
  label, and no placeholder.
\<close>

theorem stats_grid_placeholder_or_entries:
  assumes "format seg = js_str ''stats''"
  shows "(stats seg = None \<or> stats seg = Some [] \<longrightarrow>
            children (WidgetEngine seg) ! 1
              = Element ''div'' ''grid grid-cols-2 gap-4''
                  [Element ''div'' ''col-span-2 text-sm text-gray-500 italic p-4 text-center''
                     [Text (js_str ''Detailed metrics unavailable.'')]])
       \<and> (\<forall>xs. stats seg = Some xs \<and> xs \<noteq> [] \<longrightarrow>
            children (WidgetEngine seg) ! 1
              = Element ''div'' ''grid grid-cols-2 gap-4''
                  (map (\<lambda>stat.
                     Element ''div'' ''bg-white/5 rounded-xl p-4 border border-white/5 hover:border-cyan-500/30 transition-colors''
                       [Element ''div'' ''text-cyan-400 font-mono font-bold text-xl truncate''
                          [Text (val stat)],
                        Element ''div'' ''text-xs text-gray-500 uppercase tracking-wide mt-1 truncate''
                          [Text (StatItem.label stat)]]) xs)
          \<and> map texts_of (children (children (WidgetEngine seg) ! 1))
              = map (\<lambda>stat. [val stat, StatItem.label stat]) xs
          \<and> Element ''div'' ''col-span-2 text-sm text-gray-500 italic p-4 text-center''
                [Text (js_str ''Detailed metrics unavailable.'')]
              \<notin> set (children (children (WidgetEngine seg) ! 1)))"
proof -
  have grid: "children (WidgetEngine seg) ! 1 = StatsWidget_grid seg"
    using assms by (simp add: WidgetEngine_stats StatsWidget_def)
  have empty: "stats seg = None \<or> stats seg = Some [] \<longrightarrow>
        StatsWidget_grid seg
          = Element ''div'' ''grid grid-cols-2 gap-4''
              [Element ''div'' ''col-span-2 text-sm text-gray-500 italic p-4 text-center''
                 [Text (js_str ''Detailed metrics unavailable.'')]]"
    by (auto simp add: StatsWidget_grid_def StatsWidget_unavailable_def)
  have cards: "StatsWidget_grid seg
          = Element ''div'' ''grid grid-cols-2 gap-4''
              (map (\<lambda>stat.
                 Element ''div'' ''bg-white/5 rounded-xl p-4 border border-white/5 hover:border-cyan-500/30 transition-colors''
                   [Element ''div'' ''text-cyan-400 font-mono font-bold text-xl truncate''
                      [Text (val stat)],
                    Element ''div'' ''text-xs text-gray-500 uppercase tracking-wide mt-1 truncate''
                      [Text (StatItem.label stat)]]) xs)"
    if "stats seg = Some xs" and "xs \<noteq> []" for xs
    using that by (simp add: StatsWidget_grid_def StatsWidget_card_def)
  have texts: "map texts_of (children (StatsWidget_grid seg))
          = map (\<lambda>stat. [val stat, StatItem.label stat]) xs"
    if "stats seg = Some xs" and "xs \<noteq> []" for xs
    by (simp add: cards [OF that])
  have absent: "Element ''div'' ''col-span-2 text-sm text-gray-500 italic p-4 text-center''
                [Text (js_str ''Detailed metrics unavailable.'')]
              \<notin> set (children (StatsWidget_grid seg))"
    if "stats seg = Some xs" and "xs \<noteq> []" for xs
    by (auto simp add: cards [OF that])
  show ?thesis
    unfolding grid using empty cards texts absent by blast
qed

text \<open>
  C7, witness: a \<open>stats\<close> segment with an empty array, and one with the two entries
  Mass and Age, whose cards come out in that order.
\<close>

theorem stats_grid_placeholder_or_entries_witness:
  "format \<lparr>label = js_str ''Core'', format = js_str ''stats'',
           description = js_str ''A reactor'', category = js_str ''data'',
           icon = [], stats = Some [], sourceUrl = None, sourceName = None, actions = None\<rparr>
     = js_str ''stats''
   \<and> children (children (WidgetEngine \<lparr>label = js_str ''Core'', format = js_str ''stats'',
           description = js_str ''A reactor'', category = js_str ''data'',
           icon = [], stats = Some [], sourceUrl = None, sourceName = None, actions = None\<rparr>) ! 1)
     = [Element ''div'' ''col-span-2 text-sm text-gray-500 italic p-4 text-center''
         [Text (js_str ''Detailed metrics unavailable.'')]]
   \<and> children (children (WidgetEngine \<lparr>label = js_str ''Core'', format = js_str ''stats'',
           description = js_str ''A reactor'', category = js_str ''data'',
           icon = [],
           stats = Some [\<lparr>StatItem.label = js_str ''Mass'', val = js_str ''4 t'',
                          StatItem.icon = None\<rparr>,
                         \<lparr>StatItem.label = js_str ''Age'', val = js_str ''9 y'',
                          StatItem.icon = None\<rparr>],
           sourceUrl = None, sourceName = None, actions = None\<rparr>) ! 1)
     = [Element ''div'' ''bg-white/5 rounded-xl p-4 border border-white/5 hover:border-cyan-500/30 transition-colors''
          [Element ''div'' ''text-cyan-400 font-mono font-bold text-xl truncate''
             [Text (js_str ''4 t'')],
           Element ''div'' ''text-xs text-gray-500 uppercase tracking-wide mt-1 truncate''
             [Text (js_str ''Mass'')]],
        Element ''div'' ''bg-white/5 rounded-xl p-4 border border-white/5 hover:border-cyan-500/30 transition-colors''
          [Element ''div'' ''text-cyan-400 font-mono font-bold text-xl truncate''
             [Text (js_str ''9 y'')],
           Element ''div'' ''text-xs text-gray-500 uppercase tracking-wide mt-1 truncate''
             [Text (js_str ''Age'')]]]"
  using
    stats_grid_placeholder_or_entries [of "\<lparr>label = js_str ''Core'', format = js_str ''stats'',
           description = js_str ''A reactor'', category = js_str ''data'',
           icon = [], stats = Some [], sourceUrl = None, sourceName = None, actions = None\<rparr>"]
    stats_grid_placeholder_or_entries [of "\<lparr>label = js_str ''Core'', format = js_str ''stats'',
           description = js_str ''A reactor'', category = js_str ''data'',
           icon = [],
           stats = Some [\<lparr>StatItem.label = js_str ''Mass'', val = js_str ''4 t'',
                          StatItem.icon = None\<rparr>,
                         \<lparr>StatItem.label = js_str ''Age'', val = js_str ''9 y'',
                          StatItem.icon = None\<rparr>],
           sourceUrl = None, sourceName = None, actions = None\<rparr>"]
  by simp

text \<open>
  C8: for a segment of format \<open>detailed\<close>, the content block is the second child of
  the widget. With \<open>stats\<close> absent or empty it holds the description only: no strip and
  no placeholder. With \<open>stats\<close> non-empty it holds the description and then the strip,
  which holds one cell per entry, in the order of the array, each showing that entry's
  label and then its value. So a strip is rendered if and only if \<open>stats\<close> is present
  and non-empty.
\<close>

theorem detailed_strip_iff_stats:
  assumes "format seg = js_str ''detailed''"
  shows "(stats seg = None \<or> stats seg = Some [] \<longrightarrow>
            children (WidgetEngine seg) ! 1
              = Element ''div'' ''p-6 bg-black/40''
                  [Element ''p'' ''text-base text-gray-300 leading-relaxed mb-6 font-light''
                     [Text (description seg)]])
       \<and> (\<forall>xs. stats seg = Some xs \<and> xs \<noteq> [] \<longrightarrow>
            children (WidgetEngine seg) ! 1
              = Element ''div'' ''p-6 bg-black/40''
                  [Element ''p'' ''text-base text-gray-300 leading-relaxed mb-6 font-light''
                     [Text (description seg)],
                   Element ''div'' ''flex gap-4 mb-6 overflow-x-auto pb-2 scrollbar-none''
                     (map (\<lambda>stat.
                        Element ''div'' ''flex-shrink-0 bg-white/5 rounded-lg px-4 py-3 border border-white/5 min-w-[100px]''
                          [Element ''div'' ''text-[10px] text-gray-500 uppercase font-bold tracking-wider truncate''
                             [Text (StatItem.label stat)],
                           Element ''div'' ''text-white font-mono font-medium text-lg truncate''
                             [Text (val stat)]]) xs)]
          \<and> map texts_of (children (children (children (WidgetEngine seg) ! 1) ! 1))
              = map (\<lambda>stat. [StatItem.label stat, val stat]) xs)
       \<and> ((\<exists>kids. Element ''div'' ''flex gap-4 mb-6 overflow-x-auto pb-2 scrollbar-none'' kids
                    \<in> set (children (children (WidgetEngine seg) ! 1)))
            \<longleftrightarrow> (\<exists>xs. stats seg = Some xs \<and> xs \<noteq> []))"
proof -
  have content: "children (WidgetEngine seg) ! 1 = DetailedWidget_content seg"
    using assms by (simp add: WidgetEngine_detailed DetailedWidget_def)
  have empty: "DetailedWidget_content seg
          = Element ''div'' ''p-6 bg-black/40''
              [Element ''p'' ''text-base text-gray-300 leading-relaxed mb-6 font-light''
                 [Text (description seg)]]"
    if "stats seg = None \<or> stats seg = Some []"
    using that by (auto simp add: DetailedWidget_content_def)
  have strip: "DetailedWidget_content seg
          = Element ''div'' ''p-6 bg-black/40''
              [Element ''p'' ''text-base text-gray-300 leading-relaxed mb-6 font-light''
                 [Text (description seg)],
               Element ''div'' ''flex gap-4 mb-6 overflow-x-auto pb-2 scrollbar-none''
                 (map (\<lambda>stat.
                    Element ''div'' ''flex-shrink-0 bg-white/5 rounded-lg px-4 py-3 border border-white/5 min-w-[100px]''
                      [Element ''div'' ''text-[10px] text-gray-500 uppercase font-bold tracking-wider truncate''
                         [Text (StatItem.label stat)],
                       Element ''div'' ''text-white font-mono font-medium text-lg truncate''
                         [Text (val stat)]]) xs)]"
    if "stats seg = Some xs" and "xs \<noteq> []" for xs
    using that
    by (simp add: DetailedWidget_content_def DetailedWidget_strip_def DetailedWidget_stat_def)
  have texts: "map texts_of (children (children (DetailedWidget_content seg) ! 1))
          = map (\<lambda>stat. [StatItem.label stat, val stat]) xs"
    if "stats seg = Some xs" and "xs \<noteq> []" for xs
    by (simp add: strip [OF that])
  have iff: "(\<exists>kids. Element ''div'' ''flex gap-4 mb-6 overflow-x-auto pb-2 scrollbar-none'' kids
                    \<in> set (children (DetailedWidget_content seg)))
            \<longleftrightarrow> (\<exists>xs. stats seg = Some xs \<and> xs \<noteq> [])"
  proof (cases "stats seg = None \<or> stats seg = Some []")
    case True
    then show ?thesis using empty [OF True] by auto
  next
    case False
    then obtain xs where xs: "stats seg = Some xs" "xs \<noteq> []"
      by (cases "stats seg") auto
    show ?thesis using xs by (simp add: strip [OF xs])
  qed
  show ?thesis
    unfolding content using empty strip texts iff by blast
qed

text \<open>
  C8, witness: a \<open>detailed\<close> segment without stats, and one with the two entries Mass
  and Age, whose cells come out in that order.
\<close>

theorem detailed_strip_iff_stats_witness:
  "format \<lparr>label = js_str ''Core'', format = js_str ''detailed'',
           description = js_str ''A reactor'', category = js_str ''detail'',
           icon = [], stats = None, sourceUrl = None, sourceName = None, actions = None\<rparr>
     = js_str ''detailed''
   \<and> children (children (WidgetEngine \<lparr>label = js_str ''Core'', format = js_str ''detailed'',
           description = js_str ''A reactor'', category = js_str ''detail'',
           icon = [], stats = None, sourceUrl = None, sourceName = None, actions = None\<rparr>) ! 1)
     = [Element ''p'' ''text-base text-gray-300 leading-relaxed mb-6 font-light''
          [Text (js_str ''A reactor'')]]
   \<and> children (children (WidgetEngine \<lparr>label = js_str ''Core'', format = js_str ''detailed'',
           description = js_str ''A reactor'', category = js_str ''detail'',
           icon = [],
           stats = Some [\<lparr>StatItem.label = js_str ''Mass'', val = js_str ''4 t'',
                          StatItem.icon = None\<rparr>,
                         \<lparr>StatItem.label = js_str ''Age'', val = js_str ''9 y'',
                          StatItem.icon = None\<rparr>],
           sourceUrl = None, sourceName = None, actions = None\<rparr>) ! 1)
     = [Element ''p'' ''text-base text-gray-300 leading-relaxed mb-6 font-light''
          [Text (js_str ''A reactor'')],
        Element ''div'' ''flex gap-4 mb-6 overflow-x-auto pb-2 scrollbar-none''
          [Element ''div'' ''flex-shrink-0 bg-white/5 rounded-lg px-4 py-3 border border-white/5 min-w-[100px]''
             [Element ''div'' ''text-[10px] text-gray-500 uppercase font-bold tracking-wider truncate''
                [Text (js_str ''Mass'')],
              Element ''div'' ''text-white font-mono font-medium text-lg truncate''
                [Text (js_str ''4 t'')]],
           Element ''div'' ''flex-shrink-0 bg-white/5 rounded-lg px-4 py-3 border border-white/5 min-w-[100px]''
             [Element ''div'' ''text-[10px] text-gray-500 uppercase font-bold tracking-wider truncate''
                [Text (js_str ''Age'')],
              Element ''div'' ''text-white font-mono font-medium text-lg truncate''
                [Text (js_str ''9 y'')]]]]"
  using
    detailed_strip_iff_stats [of "\<lparr>label = js_str ''Core'', format = js_str ''detailed'',
           description = js_str ''A reactor'', category = js_str ''detail'',
           icon = [], stats = None, sourceUrl = None, sourceName = None, actions = None\<rparr>"]
    detailed_strip_iff_stats [of "\<lparr>label = js_str ''Core'', format = js_str ''detailed'',
           description = js_str ''A reactor'', category = js_str ''detail'',
           icon = [],
           stats = Some [\<lparr>StatItem.label = js_str ''Mass'', val = js_str ''4 t'',
                          StatItem.icon = None\<rparr>,
                         \<lparr>StatItem.label = js_str ''Age'', val = js_str ''9 y'',
                          StatItem.icon = None\<rparr>],
           sourceUrl = None, sourceName = None, actions = None\<rparr>"]
  by simp

end
